theory Spec2Isabelle
  imports Complex_Main "HOL-Library.AList"
begin

section \<open>Librarian: broadband photometry look-up (Librarian.py)\<close>

text \<open>
  A shallow embedding of the magnitude-retrieval part of class \<open>Librarian\<close>:
  \<open>gaia_query\<close>, \<open>get_magnitudes\<close>, \<open>_retrieve_from_cat\<close>, \<open>_add_mags\<close> and the
  per-catalogue row selectors \<open>_get_ascc\<close> ... \<open>_get_gaia\<close>. Python's leading underscores
  are dropped from the names. Exceptions are values of type \<open>error\<close>; every operation on
  the object returns \<open>error + librarian\<close> with \<open>Inl\<close> the exception that leaves the method.
  No handler of the source observes an object mutated by the code it guards (the guarded
  code fails before it writes), so the state at a raise is not carried.
\<close>

subsection \<open>Values, tables and the numpy operations the code relies on\<close>

datatype error = TypeError | ValueError | KeyError | NameError

text \<open>
  An entry of a (masked) table column: the stored number and its mask flag, as in
  \<open>numpy.ma\<close>. Magnitudes are floating point numbers in the source; they are modelled as
  reals, which agrees with the only numeric test the code makes (\<open>err == 0\<close>) on every
  finite value.
\<close>

datatype cell = Cell (cval: real) (cmask: bool)

type_synonym column = "cell list"

text \<open>
  A row of a catalogue table: its identifier columns (compared with the cross-match
  identifier) and its magnitude and error columns. A table is the list of its rows;
  \<open>cat[m]\<close> is the column of the entries of \<open>m\<close>, one per row. Every table is taken to
  carry all the columns its catalogue's accessors name.
\<close>

record row =
  idcol :: "string \<Rightarrow> string"
  magcol :: "string \<Rightarrow> cell"

type_synonym table = "row list"

definition table_col :: "table \<Rightarrow> string \<Rightarrow> column" where
  "table_col cat m = map (\<lambda>r. magcol r m) cat"

text \<open>\<open>cat[c] == v\<close>: the elementwise comparison of an identifier column, a boolean mask.\<close>

definition col_eq :: "table \<Rightarrow> string \<Rightarrow> string \<Rightarrow> bool list" where
  "col_eq cat c v = map (\<lambda>r. idcol r c = v) cat"

text \<open>\<open>mask *= other\<close> on boolean masks: the elementwise conjunction.\<close>

definition mask_mul :: "bool list \<Rightarrow> bool list \<Rightarrow> bool list" where
  "mask_mul a b = map (\<lambda>(x, y). x \<and> y) (zip a b)"

text \<open>\<open>cat[mask]\<close>: the rows whose mask entry is true, in table order.\<close>

definition select_rows :: "table \<Rightarrow> bool list \<Rightarrow> table" where
  "select_rows cat msk = map fst (filter snd (zip cat msk))"

text \<open>\<open>sp.ma.is_masked(col)\<close>: some entry of the column is masked.\<close>

definition is_masked :: "column \<Rightarrow> bool" where
  "is_masked col = list_ex cmask col"

text \<open>
  The truth value Python's \<open>if\<close> takes of a boolean array: the element of a one-element
  array, false for an empty array (numpy's behaviour when the code was written; it came
  with a deprecation warning, and later versions raise), and \<open>ValueError\<close> (ambiguous
  truth value) for two elements or more.
\<close>

fun truth :: "bool list \<Rightarrow> error + bool" where
  "truth [] = Inr False"
| "truth [b] = Inr b"
| "truth (b # c # bs) = Inl ValueError"

text \<open>\<open>a[idx] = x\<close> for a scalar \<open>x\<close> and an index array \<open>idx\<close>.\<close>

definition put_scalar :: "real list \<Rightarrow> nat list \<Rightarrow> real \<Rightarrow> real list" where
  "put_scalar a idx x = fold (\<lambda>i b. b[i := x]) idx a"

text \<open>
  \<open>a[idx] = v\<close> for a column \<open>v\<close>: a one-element value is broadcast, a value as long as
  \<open>idx\<close> is stored element by element, any other shape raises \<open>ValueError\<close>. The array
  receives the stored numbers of the column.
\<close>

definition put_array :: "real list \<Rightarrow> nat list \<Rightarrow> column \<Rightarrow> error + real list" where
  "put_array a idx v =
     (if length v = 1 then Inr (put_scalar a idx (cval (hd v)))
      else if length v = length idx
        then Inr (fold (\<lambda>(i, c) b. b[i := cval c]) (zip idx v) a)
      else Inl ValueError)"

text \<open>\<open>bytes.split(sep)\<close> for a one-character separator.\<close>

fun split_on :: "char \<Rightarrow> string \<Rightarrow> string list" where
  "split_on d [] = [[]]"
| "split_on d (c # cs) =
     (if c = d then [] # split_on d cs
      else (case split_on d cs of
              [] \<Rightarrow> [[c]]
            | w # ws \<Rightarrow> (c # w) # ws))"

subsection \<open>The filter registry and the catalogue schema table\<close>

definition filter_names :: "string list" where
  "filter_names =
     [''2MASS_H'', ''2MASS_J'', ''2MASS_Ks'',
      ''GROUND_JOHNSON_U'', ''GROUND_JOHNSON_V'', ''GROUND_JOHNSON_B'',
      ''GaiaDR2v2_G'', ''GaiaDR2v2_RP'', ''GaiaDR2v2_BP'',
      ''PS1_g'', ''PS1_i'', ''PS1_r'', ''PS1_w'', ''PS1_y'', ''PS1_z'',
      ''SDSS_g'', ''SDSS_i'', ''SDSS_r'', ''SDSS_u'', ''SDSS_z'',
      ''WISE_RSR_W1'', ''WISE_RSR_W2'', ''GALEX_FUV'', ''GALEX_NUV'']"

text \<open>\<open>sp.where(f == self.filter_names)[0]\<close>: the array of the positions that hold \<open>f\<close>.\<close>

definition filt_idx :: "string \<Rightarrow> nat list" where
  "filt_idx f = filter (\<lambda>i. filter_names ! i = f) [0..<length filter_names]"

type_synonym triple = "string \<times> string \<times> string"

definition zip3 :: "string list \<Rightarrow> string list \<Rightarrow> string list \<Rightarrow> triple list" where
  "zip3 ms es fs = zip ms (zip es fs)"

definition apass_mags :: "string list" where
  "apass_mags = [''Vmag'', ''Bmag'', ''g_mag'', ''r_mag'', ''i_mag'']"
definition apass_errs :: "string list" where
  "apass_errs = [''e_Vmag'', ''e_Bmag'', ''e_g_mag'', ''e_r_mag'', ''e_i_mag'']"
definition apass_filters :: "string list" where
  "apass_filters = [''GROUND_JOHNSON_V'', ''GROUND_JOHNSON_B'', ''SDSS_g'', ''SDSS_r'', ''SDSS_i'']"
definition ascc_mags :: "string list" where
  "ascc_mags = [''Vmag'', ''Bmag'', ''Jmag'', ''Hmag'', ''Kmag'']"
definition ascc_errs :: "string list" where
  "ascc_errs = [''e_Vmag'', ''e_Bmag'', ''e_Jmag'', ''e_Hmag'', ''e_Kmag'']"
definition ascc_filters :: "string list" where
  "ascc_filters = [''GROUND_JOHNSON_V'', ''GROUND_JOHNSON_B'', ''2MASS_J'', ''2MASS_H'', ''2MASS_Ks'']"
definition wise_mags :: "string list" where
  "wise_mags = [''W1mag'', ''W2mag'']"
definition wise_errs :: "string list" where
  "wise_errs = [''e_W1mag'', ''e_W2mag'']"
definition wise_filters :: "string list" where
  "wise_filters = [''WISE_RSR_W1'', ''WISE_RSR_W2'']"
definition ps1_mags :: "string list" where
  "ps1_mags = [''gmag'', ''rmag'', ''imag'', ''zmag'', ''ymag'']"
definition ps1_errs :: "string list" where
  "ps1_errs = [''e_gmag'', ''e_rmag'', ''e_imag'', ''e_zmag'', ''e_ymag'']"
definition ps1_filters :: "string list" where
  "ps1_filters = [''PS1_g'', ''PS1_r'', ''PS1_i'', ''PS1_z'', ''PS1_y'']"
definition twomass_mags :: "string list" where
  "twomass_mags = [''Jmag'', ''Hmag'', ''Kmag'']"
definition twomass_errs :: "string list" where
  "twomass_errs = [''e_Jmag'', ''e_Hmag'', ''e_Kmag'']"
definition twomass_filters :: "string list" where
  "twomass_filters = [''2MASS_J'', ''2MASS_H'', ''2MASS_Ks'']"
definition gaia_mags :: "string list" where
  "gaia_mags = [''Gmag'', ''BPmag'', ''RPmag'']"
definition gaia_errs :: "string list" where
  "gaia_errs = [''e_Gmag'', ''e_BPmag'', ''e_RPmag'']"
definition gaia_filters :: "string list" where
  "gaia_filters = [''GaiaDR2v2_G'', ''GaiaDR2v2_BP'', ''GaiaDR2v2_RP'']"
definition sdss_mags :: "string list" where
  "sdss_mags = [''umag'', ''gmag'', ''rmag'', ''imag'', ''zmag'']"
definition sdss_errs :: "string list" where
  "sdss_errs = [''e_umag'', ''e_gmag'', ''e_rmag'', ''e_imag'', ''e_zmag'']"
definition sdss_filters :: "string list" where
  "sdss_filters = [''SDSS_u'', ''SDSS_g'', ''SDSS_r'', ''SDSS_i'', ''SDSS_z'']"
definition galex_mags :: "string list" where
  "galex_mags = [''FUV'', ''NUV'']"
definition galex_errs :: "string list" where
  "galex_errs = [''e_FUV'', ''e_NUV'']"
definition galex_filters :: "string list" where
  "galex_filters = [''GALEX_FUV'', ''GALEX_NUV'']"

text \<open>
  The class attribute \<open>catalogs\<close> as the class body builds it, in declaration order
  (the order \<open>catalogs.keys()\<close> iterates in): the catalogue's name, its Vizier table key
  and the items its \<open>zip\<close> will yield.
\<close>

definition catalogs :: "(string \<times> string \<times> triple list) list" where
  "catalogs =
     [(''ASCC'', ''I/280B/ascc'', zip3 ascc_mags ascc_errs ascc_filters),
      (''APASS'', ''II/336/apass9'', zip3 apass_mags apass_errs apass_filters),
      (''Wise'', ''II/328/allwise'', zip3 wise_mags wise_errs wise_filters),
      (''Pan-STARRS'', ''II/349/ps1'', zip3 ps1_mags ps1_errs ps1_filters),
      (''Gaia'', ''I/345/gaia2'', zip3 gaia_mags gaia_errs gaia_filters),
      (''2MASS'', ''II/246/out'', zip3 twomass_mags twomass_errs twomass_filters),
      (''SDSS'', ''V/147/sdss12'', zip3 sdss_mags sdss_errs sdss_filters),
      (''GALEX'', ''II/312/ais'', zip3 galex_mags galex_errs galex_filters)]"

definition catalog_keys :: "(string \<times> string) list" where
  "catalog_keys = map (\<lambda>(name, key, items). (name, key)) catalogs"

text \<open>
  In Python 3 each \<open>zip(...)\<close> of \<open>catalogs\<close> is a one-shot iterator, created once when
  the class body runs and shared by every instance. \<open>fresh_zips\<close> is their state then:
  for each catalogue the items not yet consumed.
\<close>

definition fresh_zips :: "(string \<times> triple list) list" where
  "fresh_zips = map (\<lambda>(name, key, items). (name, items)) catalogs"

subsection \<open>The state\<close>

text \<open>
  The fields of a \<open>Librarian\<close> that the retrieval reads or writes, together with the
  two pieces of state it shares with its surroundings: \<open>zips\<close>, the remaining items of the
  class-level iterators, and \<open>warnings\<close>, the warnings emitted so far (parameter and
  code, oldest first).
\<close>

record librarian =
  verbose :: bool
  g_id :: string
  ids :: "(string \<times> string) list"
  used_filters :: "real list"
  mags :: "real list"
  mag_errs :: "real list"
  zips :: "(string \<times> triple list) list"
  warnings :: "(string \<times> nat) list"

text \<open>
  Modelled from the spec: module \<open>Error\<close> (class \<open>CatalogWarning\<close>) is not among the
  sources. The spec describes warning emission as a side channel that records a category
  and a severity and never aborts processing. The code emits with
  \<open>CatalogWarning(par, code).warn()\<close>, modelled by \<open>warn\<close>; constructing a
  \<open>CatalogWarning\<close> without calling \<open>warn\<close> on it, modelled by \<open>CatalogWarning_new\<close>,
  records nothing.
\<close>

definition warn :: "string \<Rightarrow> nat \<Rightarrow> librarian \<Rightarrow> librarian" where
  "warn par code s = s\<lparr>warnings := warnings s @ [(par, code)]\<rparr>"

definition CatalogWarning_new :: "string \<Rightarrow> nat \<Rightarrow> librarian \<Rightarrow> librarian" where
  "CatalogWarning_new par code s = s"

subsection \<open>\<open>gaia_query\<close>: the cross-match identifiers\<close>

text \<open>
  The chain of \<open>if c == ...: cat = ...\<close> that opens the loop body; \<open>cat\<close> is the loop's
  variable, unbound (\<open>None\<close>) before the first assignment.
\<close>

definition assign_cat :: "string \<Rightarrow> string option \<Rightarrow> string option" where
  "assign_cat c cat0 =
     (let cat1 = (if c = ''apassdr9'' then Some ''APASS'' else cat0);
          cat2 = (if c = ''tmass'' then Some ''2MASS'' else cat1);
          cat3 = (if c = ''tycho2'' then Some ''ASCC'' else cat2);
          cat4 = (if c = ''panstarrs1'' then Some ''Pan-STARRS'' else cat3);
          cat5 = (if c = ''sdssdr9'' then Some ''SDSS'' else cat4);
          cat6 = (if c = ''allwise'' then Some ''Wise'' else cat5)
      in cat6)"

text \<open>
  The loop over \<open>zip(cats, names)\<close>. \<open>res c\<close> is the column \<open>original_ext_source_id\<close> of
  the rows the Gaia archive returns for the best-neighbour table \<open>c\<close> (the archive is
  outside the program). The loop carries the dictionary \<open>IDS\<close> and the variable \<open>cat\<close>.
\<close>

fun gaia_query_loop ::
  "(string \<Rightarrow> string list) \<Rightarrow> string list \<Rightarrow> string option \<Rightarrow> (string \<times> string) list \<Rightarrow>
   librarian \<Rightarrow> error + ((string \<times> string) list \<times> librarian)" where
  "gaia_query_loop res [] cat IDS s = Inr (IDS, s)"
| "gaia_query_loop res (c # cs) cat IDS s =
     (case assign_cat c cat of
        None \<Rightarrow> Inl NameError
      | Some k \<Rightarrow>
          (case res c of
             x # xs \<Rightarrow> gaia_query_loop res cs (Some k) (AList.update k x IDS) s
           | [] \<Rightarrow>
               gaia_query_loop res cs (Some k) (AList.update k ''skipped'' IDS)
                 (if verbose s then warn k 5 s else s)))"

definition gaia_query :: "(string \<Rightarrow> string list) \<Rightarrow> librarian \<Rightarrow> error + librarian" where
  "gaia_query res s =
     (let cats = [''tycho2'', ''panstarrs1'', ''sdssdr9'', ''allwise'', ''tmass'', ''apassdr9''];
          IDS = [(''ASCC'', ''''), (''APASS'', ''''), (''2MASS'', ''''), (''Pan-STARRS'', ''''),
                 (''SDSS'', ''''), (''Wise'', ''''), (''Gaia'', g_id s)]
      in case gaia_query_loop res cats None IDS s of
           Inl x \<Rightarrow> Inl x
         | Inr (IDS', s') \<Rightarrow> Inr (s'\<lparr>ids := IDS'\<rparr>))"

text \<open>
  \<open>__init__\<close> with \<open>mags=True\<close> and a given Gaia identifier: fresh zero arrays, one entry
  per filter, then \<open>gaia_query\<close>. The iterators are the class's, so the new object
  starts from whatever state \<open>zs\<close> earlier objects left them in. (\<open>gaia_params\<close> sets
  stellar parameters only and is left out.)
\<close>

definition new_librarian ::
  "bool \<Rightarrow> string \<Rightarrow> (string \<Rightarrow> string list) \<Rightarrow> (string \<times> triple list) list \<Rightarrow>
   error + librarian" where
  "new_librarian vb gid res zs =
     gaia_query res
       \<lparr>verbose = vb, g_id = gid, ids = [],
        used_filters = replicate (length filter_names) 0,
        mags = replicate (length filter_names) 0,
        mag_errs = replicate (length filter_names) 0,
        zips = zs, warnings = []\<rparr>"

subsection \<open>\<open>_add_mags\<close> and \<open>_retrieve_from_cat\<close>\<close>

definition add_mags :: "column \<Rightarrow> column \<Rightarrow> string \<Rightarrow> librarian \<Rightarrow> error + librarian" where
  "add_mags mag er filt s =
     (let filt_idx = filt_idx filt in
      case truth (map (\<lambda>i. used_filters s ! i = 1) filt_idx) of
        Inl x \<Rightarrow> Inl x
      | Inr b \<Rightarrow>
          if b then Inr (if verbose s then CatalogWarning_new filt 6 s else s)
          else
            (let u = put_scalar (used_filters s) filt_idx 1 in
             case put_array (mags s) filt_idx mag of
               Inl x \<Rightarrow> Inl x
             | Inr ms \<Rightarrow>
                 (case put_array (mag_errs s) filt_idx er of
                    Inl x \<Rightarrow> Inl x
                  | Inr es \<Rightarrow> Inr (s\<lparr>used_filters := u, mags := ms, mag_errs := es\<rparr>))))"

text \<open>
  The \<open>for m, e, f in self.catalogs[name][1]\<close> loop over the items the iterator still
  holds. The result carries the items left in the iterator when the loop is left: a
  \<open>return\<close> leaves the items after the current one unconsumed.
\<close>

fun retrieve_loop ::
  "table \<Rightarrow> triple list \<Rightarrow> librarian \<Rightarrow> error + (librarian \<times> triple list)" where
  "retrieve_loop cat [] s = Inr (s, [])"
| "retrieve_loop cat ((m, e, f) # items) s =
     (let filt_idx = filt_idx f in
      case truth (map (\<lambda>i. used_filters s ! i = 1) filt_idx) of
        Inl x \<Rightarrow> Inl x
      | Inr b \<Rightarrow>
          if b then Inr (if verbose s then CatalogWarning_new f 6 s else s, items)
          else
            (let mag = table_col cat m; err = table_col cat e in
             if is_masked mag then Inr (warn m 2 s, items)
             else if is_masked err then Inr (warn m 3 s, items)
             else
               (case truth (map (\<lambda>c. cval c = 0) err) of
                  Inl x \<Rightarrow> Inl x
                | Inr z \<Rightarrow>
                    if z then Inr (warn m 4 s, items)
                    else
                      (case add_mags mag err f s of
                         Inl x \<Rightarrow> Inl x
                       | Inr s' \<Rightarrow> retrieve_loop cat items s'))))"

definition retrieve_from_cat :: "table \<Rightarrow> string \<Rightarrow> librarian \<Rightarrow> error + librarian" where
  "retrieve_from_cat cat name s =
     (case map_of (zips s) name of
        None \<Rightarrow> Inl KeyError
      | Some items \<Rightarrow>
          (case retrieve_loop cat items s of
             Inl x \<Rightarrow> Inl x
           | Inr (s', rest) \<Rightarrow> Inr (s'\<lparr>zips := AList.update name rest (zips s')\<rparr>)))"

subsection \<open>The row selectors\<close>

text \<open>
  The rows \<open>_get_ascc\<close> hands to the extractor: the identifier is split at the dashes
  into exactly three components (the tuple assignment raises \<open>ValueError\<close> otherwise),
  and the three equality masks are multiplied.
\<close>

definition ascc_rows :: "table \<Rightarrow> string \<Rightarrow> error + table" where
  "ascc_rows cat i =
     (case split_on CHR ''-'' i of
        [tyc1, tyc2, tyc3] \<Rightarrow>
          (let mask1 = col_eq cat ''TYC1'' tyc1;
               mask2 = mask_mul mask1 (col_eq cat ''TYC2'' tyc2);
               mask3 = mask_mul mask2 (col_eq cat ''TYC3'' tyc3)
           in Inr (select_rows cat mask3))
      | _ \<Rightarrow> Inl ValueError)"

definition get_ascc :: "table \<Rightarrow> librarian \<Rightarrow> error + librarian" where
  "get_ascc cat s =
     (case map_of (ids s) ''ASCC'' of
        None \<Rightarrow> Inl KeyError
      | Some i \<Rightarrow>
          (case ascc_rows cat i of
             Inl x \<Rightarrow> Inl x
           | Inr rows \<Rightarrow> retrieve_from_cat rows ''ASCC'' s))"

text \<open>The selectors that compare one identifier column with the catalogue's identifier.\<close>

definition get_by_column ::
  "string \<Rightarrow> string \<Rightarrow> table \<Rightarrow> librarian \<Rightarrow> error + librarian" where
  "get_by_column col name cat s =
     (case map_of (ids s) name of
        None \<Rightarrow> Inl KeyError
      | Some i \<Rightarrow> retrieve_from_cat (select_rows cat (col_eq cat col i)) name s)"

definition get_apass :: "table \<Rightarrow> librarian \<Rightarrow> error + librarian" where
  "get_apass cat s = get_by_column ''recno'' ''APASS'' cat s"

definition get_wise :: "table \<Rightarrow> librarian \<Rightarrow> error + librarian" where
  "get_wise cat s = get_by_column ''AllWISE'' ''Wise'' cat s"

definition get_2mass :: "table \<Rightarrow> librarian \<Rightarrow> error + librarian" where
  "get_2mass cat s = get_by_column ''_2MASS'' ''2MASS'' cat s"

definition get_sdss :: "table \<Rightarrow> librarian \<Rightarrow> error + librarian" where
  "get_sdss cat s = get_by_column ''SDSS12'' ''SDSS'' cat s"

definition get_ps1 :: "table \<Rightarrow> librarian \<Rightarrow> error + librarian" where
  "get_ps1 cat s = get_by_column ''objID'' ''Pan-STARRS'' cat s"

definition get_gaia :: "table \<Rightarrow> librarian \<Rightarrow> error + librarian" where
  "get_gaia cat s =
     (case map_of (ids s) ''Gaia'' of
        None \<Rightarrow> Inl KeyError
      | Some i \<Rightarrow>
          retrieve_from_cat (select_rows cat (col_eq cat ''DR2Name'' (''Gaia DR2 '' @ i)))
            ''Gaia'' s)"

subsection \<open>\<open>get_magnitudes\<close>\<close>

text \<open>
  The body of the loop \<open>for c in self.catalogs.keys()\<close>, for the catalogue \<open>c\<close> with
  table key \<open>key\<close>. \<open>cats\<close> is the answer of the Vizier query (\<open>get_catalogs\<close>), a list
  of tables by key; indexing it with a key it does not hold raises the \<open>TypeError\<close> the
  first handler catches. In the second branch the call \<open>self._retrieve_from_cat(current_cat)\<close>
  lacks the argument \<open>name\<close>, so it raises \<open>TypeError\<close> before the method's body runs;
  \<open>except Exception\<close> catches it and the look-up's.
\<close>

definition get_magnitudes_body ::
  "(string \<times> table) list \<Rightarrow> string \<Rightarrow> string \<Rightarrow> librarian \<Rightarrow> error + librarian" where
  "get_magnitudes_body cats c key s =
     (case map_of (ids s) c of
        Some i \<Rightarrow>
          if i = ''skipped'' then Inr s
          else
            (case map_of cats key of
               None \<Rightarrow> Inr (warn c 5 s)
             | Some current_cat \<Rightarrow>
                 if c = ''APASS'' then get_apass current_cat s
                 else if c = ''Wise'' then get_wise current_cat s
                 else if c = ''ASCC'' then get_ascc current_cat s
                 else if c = ''SDSS'' then get_sdss current_cat s
                 else if c = ''Pan-STARRS'' then get_ps1 current_cat s
                 else if c = ''Gaia'' then get_gaia current_cat s
                 else Inr s)
      | None \<Rightarrow>
          (case (case map_of cats key of
                   None \<Rightarrow> Inl TypeError
                 | Some current_cat \<Rightarrow> Inl TypeError) of
             Inl x \<Rightarrow> Inr (if verbose s then warn c 5 s else s)
           | Inr s' \<Rightarrow> Inr s'))"

fun get_magnitudes_loop ::
  "(string \<times> table) list \<Rightarrow> (string \<times> string) list \<Rightarrow> librarian \<Rightarrow> error + librarian" where
  "get_magnitudes_loop cats [] s = Inr s"
| "get_magnitudes_loop cats ((c, key) # rest) s =
     (case get_magnitudes_body cats c key s of
        Inl x \<Rightarrow> Inl x
      | Inr s' \<Rightarrow> get_magnitudes_loop cats rest s')"

definition get_magnitudes :: "(string \<times> table) list \<Rightarrow> librarian \<Rightarrow> error + librarian" where
  "get_magnitudes cats s = get_magnitudes_loop cats catalog_keys s"

subsection \<open>Runs\<close>

text \<open>
  One resolution run as a caller performs it: construct a \<open>Librarian\<close> for the target
  (which resolves the cross-match identifiers) and ask it for the magnitudes. \<open>zs\<close> is
  the state of the class's iterators when the run starts: \<open>fresh_zips\<close> for the first
  run of a process.
\<close>

definition run ::
  "bool \<Rightarrow> string \<Rightarrow> (string \<Rightarrow> string list) \<Rightarrow> (string \<times> table) list \<Rightarrow>
   (string \<times> triple list) list \<Rightarrow> error + librarian" where
  "run vb gid res cats zs =
     (case new_librarian vb gid res zs of
        Inl x \<Rightarrow> Inl x
      | Inr s \<Rightarrow> get_magnitudes cats s)"

text \<open>Two runs in one process with the same inputs; the second starts from the iterators the first left.\<close>

definition run_twice ::
  "bool \<Rightarrow> string \<Rightarrow> (string \<Rightarrow> string list) \<Rightarrow> (string \<times> table) list \<Rightarrow>
   error + (librarian \<times> librarian)" where
  "run_twice vb gid res cats =
     (case run vb gid res cats fresh_zips of
        Inl x \<Rightarrow> Inl x
      | Inr s1 \<Rightarrow>
          (case run vb gid res cats (zips s1) of
             Inl x \<Rightarrow> Inl x
           | Inr s2 \<Rightarrow> Inr (s1, s2)))"

subsection \<open>Predicates of the specification\<close>

text \<open>The measurement vector: the three parallel arrays.\<close>

definition measurement :: "librarian \<Rightarrow> real list \<times> real list \<times> real list" where
  "measurement s = (used_filters s, mags s, mag_errs s)"

text \<open>Band \<open>i\<close> of the measurement vector: its used flag, magnitude and error.\<close>

definition band :: "nat \<Rightarrow> librarian \<Rightarrow> real \<times> real \<times> real" where
  "band i s = (used_filters s ! i, mags s ! i, mag_errs s ! i)"


text \<open>The three arrays have one entry per filter, as \<open>__init__\<close> creates them.\<close>

definition well_formed :: "librarian \<Rightarrow> bool" where
  "well_formed s =
     (length (used_filters s) = length filter_names \<and>
      length (mags s) = length filter_names \<and>
      length (mag_errs s) = length filter_names)"

text \<open>Band \<open>i\<close> is used in \<open>s'\<close> and holds the magnitude and error it holds in \<open>s\<close>.\<close>

definition band_kept :: "nat \<Rightarrow> librarian \<Rightarrow> librarian \<Rightarrow> bool" where
  "band_kept i s s' =
     (used_filters s' ! i = 1 \<and> mags s' ! i = mags s ! i \<and> mag_errs s' ! i = mag_errs s ! i)"

text \<open>Every used band has an error different from zero.\<close>

definition errs_nonzero :: "librarian \<Rightarrow> bool" where
  "errs_nonzero s =
     list_all (\<lambda>i. used_filters s ! i \<noteq> 1 \<or> mag_errs s ! i \<noteq> 0) [0..<length filter_names]"

text \<open>The two states agree in everything but the warnings emitted so far.\<close>

definition same_data :: "librarian \<Rightarrow> librarian \<Rightarrow> bool" where
  "same_data s t =
     (verbose s = verbose t \<and> g_id s = g_id t \<and> ids s = ids t \<and>
      used_filters s = used_filters t \<and> mags s = mags t \<and> mag_errs s = mag_errs t \<and>
      zips s = zips t)"

text \<open>
  The elementary changes of state the retrieval is built from: storing a magnitude with
  a nonzero error into a band that is not used, emitting warnings, advancing an iterator.
\<close>

inductive step :: "librarian \<Rightarrow> librarian \<Rightarrow> bool" where
  stored: "used_filters s ! j \<noteq> 1 \<Longrightarrow> e \<noteq> 0 \<Longrightarrow>
     step s (s\<lparr>used_filters := (used_filters s)[j := 1], mags := (mags s)[j := m],
               mag_errs := (mag_errs s)[j := e]\<rparr>)"
| warned: "step s (s\<lparr>warnings := w\<rparr>)"
| advanced: "step s (s\<lparr>zips := z\<rparr>)"

text \<open>
  What \<open>gaia_query\<close> stores for the neighbour table \<open>c\<close>: the identifier of the first
  row of the archive's answer, or the sentinel when the answer is empty; and the warning
  it emits (when verbose) for an empty answer.
\<close>

definition first_id :: "(string \<Rightarrow> string list) \<Rightarrow> string \<Rightarrow> string" where
  "first_id res c = (case res c of [] \<Rightarrow> ''skipped'' | x # xs \<Rightarrow> x)"

definition no_match :: "(string \<Rightarrow> string list) \<Rightarrow> string \<Rightarrow> string \<Rightarrow> (string \<times> nat) list" where
  "no_match res c k = (if res c = [] then [(k, 5)] else [])"

text \<open>The neighbour tables \<open>gaia_query\<close> asks for, each with the catalogue it stands for.\<close>

definition cross_matches :: "(string \<times> string) list" where
  "cross_matches =
     [(''tycho2'', ''ASCC''), (''panstarrs1'', ''Pan-STARRS''), (''sdssdr9'', ''SDSS''),
      (''allwise'', ''Wise''), (''tmass'', ''2MASS''), (''apassdr9'', ''APASS'')]"

subsection \<open>Sample data\<close>

text \<open>
  A table row from its identifier entries and its unmasked numeric entries; every other
  numeric entry is masked.
\<close>

definition mk_row :: "(string \<times> string) list \<Rightarrow> (string \<times> real) list \<Rightarrow> row" where
  "mk_row idl ml =
     \<lparr>idcol = (\<lambda>c. case map_of idl c of None \<Rightarrow> [] | Some v \<Rightarrow> v),
      magcol = (\<lambda>c. case map_of ml c of None \<Rightarrow> Cell 0 True | Some x \<Rightarrow> Cell x False)\<rparr>"

text \<open>
  A target with Gaia identifier 42 whose Gaia cross-match tables name a Tycho-2 and a
  2MASS neighbour and nothing else.
\<close>

definition sample_res :: "string \<Rightarrow> string list" where
  "sample_res c =
     (if c = ''tycho2'' then [''1234-567-1''] else if c = ''tmass'' then [''J1''] else [])"

definition sample_lib :: "bool \<Rightarrow> librarian" where
  "sample_lib vb =
     \<lparr>verbose = vb, g_id = ''42'',
      ids = [(''ASCC'', ''1234-567-1''), (''APASS'', ''skipped''), (''2MASS'', ''J1''),
             (''Pan-STARRS'', ''skipped''), (''SDSS'', ''skipped''), (''Wise'', ''skipped''),
             (''Gaia'', ''42'')],
      used_filters = replicate (length filter_names) 0,
      mags = replicate (length filter_names) 0,
      mag_errs = replicate (length filter_names) 0,
      zips = fresh_zips,
      warnings = (if vb then [(''Pan-STARRS'', 5), (''SDSS'', 5), (''Wise'', 5), (''APASS'', 5)]
                  else [])\<rparr>"

definition gaia_row :: row where
  "gaia_row =
     mk_row [(''DR2Name'', ''Gaia DR2 42'')]
       [(''Gmag'', 10.5), (''e_Gmag'', 0.02), (''BPmag'', 11), (''e_BPmag'', 0.03),
        (''RPmag'', 10), (''e_RPmag'', 0.03)]"

text \<open>The same star with a negative entry in the error column of the G band.\<close>

definition gaia_row_negative :: row where
  "gaia_row_negative =
     mk_row [(''DR2Name'', ''Gaia DR2 42'')]
       [(''Gmag'', 10.5), (''e_Gmag'', - 0.02), (''BPmag'', 11), (''e_BPmag'', 0.03),
        (''RPmag'', 10), (''e_RPmag'', 0.03)]"

text \<open>Another star of the same field.\<close>

definition gaia_row_other :: row where
  "gaia_row_other =
     mk_row [(''DR2Name'', ''Gaia DR2 43'')]
       [(''Gmag'', 12), (''e_Gmag'', 0.01), (''BPmag'', 12.5), (''e_BPmag'', 0.02),
        (''RPmag'', 11.5), (''e_RPmag'', 0.02)]"

text \<open>The ASCC row of the target: the V magnitude is masked, the other bands are valid.\<close>

definition ascc_row :: row where
  "ascc_row =
     mk_row [(''TYC1'', ''1234''), (''TYC2'', ''567''), (''TYC3'', ''1'')]
       [(''e_Vmag'', 0.01), (''Bmag'', 9.5), (''e_Bmag'', 0.02), (''Jmag'', 8), (''e_Jmag'', 0.02),
        (''Hmag'', 7.8), (''e_Hmag'', 0.02), (''Kmag'', 7.7), (''e_Kmag'', 0.02)]"

text \<open>An ASCC row that agrees with the target in two of the three components only.\<close>

definition ascc_row_near :: row where
  "ascc_row_near =
     mk_row [(''TYC1'', ''1234''), (''TYC2'', ''567''), (''TYC3'', ''2'')]
       [(''Vmag'', 9), (''e_Vmag'', 0.01), (''Bmag'', 9.5), (''e_Bmag'', 0.02)]"

definition twomass_row :: row where
  "twomass_row =
     mk_row [(''_2MASS'', ''J1'')]
       [(''Jmag'', 8), (''e_Jmag'', 0.02), (''Hmag'', 7.8), (''e_Hmag'', 0.02),
        (''Kmag'', 7.7), (''e_Kmag'', 0.02)]"


definition ascc_row_full :: row where
  "ascc_row_full =
     mk_row [(''TYC1'', ''1234''), (''TYC2'', ''567''), (''TYC3'', ''1'')]
       [(''Vmag'', 9), (''e_Vmag'', 0.01), (''Bmag'', 9.5), (''e_Bmag'', 0.02), (''Jmag'', 8),
        (''e_Jmag'', 0.02), (''Hmag'', 7.8), (''e_Hmag'', 0.02), (''Kmag'', 7.7), (''e_Kmag'', 0.02)]"



text \<open>The Vizier answer for the first target: its ASCC, Gaia and 2MASS tables.\<close>

definition sample_cats :: "(string \<times> table) list" where
  "sample_cats =
     [(''I/280B/ascc'', [ascc_row_near, ascc_row]), (''I/345/gaia2'', [gaia_row_other, gaia_row]),
      (''II/246/out'', [twomass_row])]"

section \<open>Properties\<close>

subsection \<open>Array operations\<close>

lemma truth_False: "truth bs = Inr False \<longleftrightarrow> bs = [] \<or> bs = [False]"
  by (cases bs rule: truth.cases) auto

lemma truth_True: "truth bs = Inr True \<longleftrightarrow> bs = [True]"
  by (cases bs rule: truth.cases) auto

lemma put_scalar_Nil: "put_scalar a [] x = a"
  by (simp add: put_scalar_def)

lemma put_scalar_single: "put_scalar a [j] x = a[j := x]"
  by (simp add: put_scalar_def)

lemma put_array_Nil: "put_array a [] v = Inr a' \<Longrightarrow> a' = a"
  by (auto simp: put_array_def put_scalar_def split: if_splits)

lemma put_array_single: "put_array a [j] v = Inr a' \<Longrightarrow> \<exists>c. v = [c] \<and> a' = a[j := cval c]"
  by (cases v) (auto simp: put_array_def put_scalar_def split: if_splits)

lemma filt_idx_bound: "filt_idx f = [i] \<Longrightarrow> i < length filter_names"
proof -
  assume "filt_idx f = [i]"
  then have "i \<in> set (filter (\<lambda>i. filter_names ! i = f) [0..<length filter_names])"
    by (simp add: filt_idx_def)
  then show ?thesis by simp
qed

lemma select_rows_map: "select_rows cat (map P cat) = filter P cat"
  by (induction cat) (simp_all add: select_rows_def)

lemma mask_mul_map: "mask_mul (map P cat) (map Q cat) = map (\<lambda>r. P r \<and> Q r) cat"
  by (induction cat) (simp_all add: mask_mul_def)

subsection \<open>What a successful \<open>_add_mags\<close> does\<close>

lemma add_mags_used:
  "filt_idx f = [i] \<Longrightarrow> used_filters s ! i = 1 \<Longrightarrow> add_mags mag er f s = Inr s"
  by (simp add: add_mags_def Let_def CatalogWarning_new_def)

lemma add_mags_fresh:
  "filt_idx f = [i] \<Longrightarrow> used_filters s ! i \<noteq> 1 \<Longrightarrow>
   add_mags [m] [e] f s =
     Inr (s\<lparr>used_filters := (used_filters s)[i := 1], mags := (mags s)[i := cval m],
            mag_errs := (mag_errs s)[i := cval e]\<rparr>)"
  by (simp add: add_mags_def Let_def put_array_def put_scalar_def)

lemma add_mags_cases:
  assumes "add_mags mag er f s = Inr s'"
  shows "s' = s \<or>
     (\<exists>j m e. filt_idx f = [j] \<and> used_filters s ! j \<noteq> 1 \<and> mag = [m] \<and> er = [e] \<and>
        s' = s\<lparr>used_filters := (used_filters s)[j := 1], mags := (mags s)[j := cval m],
               mag_errs := (mag_errs s)[j := cval e]\<rparr>)"
proof (cases "truth (map (\<lambda>i. used_filters s ! i = 1) (filt_idx f))")
  case (Inl x)
  with assms show ?thesis by (simp add: add_mags_def Let_def)
next
  case (Inr b)
  show ?thesis
  proof (cases b)
    case True
    with Inr assms show ?thesis by (auto simp: add_mags_def Let_def CatalogWarning_new_def)
  next
    case False
    with Inr have "filt_idx f = [] \<or> (\<exists>j. filt_idx f = [j] \<and> used_filters s ! j \<noteq> 1)"
      by (auto simp: truth_False map_eq_Cons_conv)
    then show ?thesis
    proof
      assume "filt_idx f = []"
      with assms show ?thesis
        by (auto simp: add_mags_def Let_def put_scalar_Nil split: sum.splits dest!: put_array_Nil)
    next
      assume "\<exists>j. filt_idx f = [j] \<and> used_filters s ! j \<noteq> 1"
      then obtain j where "filt_idx f = [j]" and "used_filters s ! j \<noteq> 1" by blast
      with assms show ?thesis
        by (auto simp: add_mags_def Let_def put_scalar_single split: sum.splits
            dest!: put_array_single)
    qed
  qed
qed

subsection \<open>Every layer of the retrieval is a sequence of elementary steps\<close>

lemma warn_step: "step s (warn m k s)"
  by (simp add: warn_def step.warned)

lemma add_mags_steps:
  assumes "add_mags mag er f s = Inr s'" and "truth (map (\<lambda>c. cval c = 0) er) = Inr False"
  shows "step\<^sup>*\<^sup>* s s'"
proof -
  from add_mags_cases[OF assms(1)] show ?thesis
  proof
    assume "s' = s"
    then show ?thesis by simp
  next
    assume "\<exists>j m e. filt_idx f = [j] \<and> used_filters s ! j \<noteq> 1 \<and> mag = [m] \<and> er = [e] \<and>
        s' = s\<lparr>used_filters := (used_filters s)[j := 1], mags := (mags s)[j := cval m],
               mag_errs := (mag_errs s)[j := cval e]\<rparr>"
    then obtain j m e where u: "used_filters s ! j \<noteq> 1" and er: "er = [e]"
      and s': "s' = s\<lparr>used_filters := (used_filters s)[j := 1], mags := (mags s)[j := cval m],
               mag_errs := (mag_errs s)[j := cval e]\<rparr>"
      by blast
    from assms(2) er have "cval e \<noteq> 0" by simp
    with u have "step s s'" unfolding s' by (rule step.stored)
    then show ?thesis by (rule r_into_rtranclp)
  qed
qed

lemma retrieve_loop_steps:
  "retrieve_loop cat items s = Inr (s', rest) \<Longrightarrow> step\<^sup>*\<^sup>* s s'"
proof (induction items arbitrary: s)
  case Nil
  then show ?case by simp
next
  case (Cons t items)
  obtain m e f where t: "t = (m, e, f)" by (cases t) auto
  from Cons.prems show ?case
    unfolding t
    by (auto simp: Let_def CatalogWarning_new_def split: sum.splits if_splits
        intro: r_into_rtranclp warn_step rtranclp_trans[OF add_mags_steps Cons.IH])
qed

lemma retrieve_from_cat_steps:
  "retrieve_from_cat cat name s = Inr s' \<Longrightarrow> step\<^sup>*\<^sup>* s s'"
  by (auto simp: retrieve_from_cat_def split: option.splits sum.splits
      dest!: retrieve_loop_steps intro: rtranclp.rtrancl_into_rtrancl step.advanced)

lemma get_by_column_steps:
  "get_by_column col name cat s = Inr s' \<Longrightarrow> step\<^sup>*\<^sup>* s s'"
  by (auto simp: get_by_column_def split: option.splits dest: retrieve_from_cat_steps)

lemma get_ascc_steps: "get_ascc cat s = Inr s' \<Longrightarrow> step\<^sup>*\<^sup>* s s'"
  by (auto simp: get_ascc_def split: option.splits sum.splits dest: retrieve_from_cat_steps)

lemma get_gaia_steps: "get_gaia cat s = Inr s' \<Longrightarrow> step\<^sup>*\<^sup>* s s'"
  by (auto simp: get_gaia_def split: option.splits dest: retrieve_from_cat_steps)

lemma get_magnitudes_body_steps:
  "get_magnitudes_body cats c key s = Inr s' \<Longrightarrow> step\<^sup>*\<^sup>* s s'"
  by (auto simp: get_magnitudes_body_def get_apass_def get_wise_def get_sdss_def get_ps1_def
      split: option.splits if_splits
      dest: get_by_column_steps get_ascc_steps get_gaia_steps intro: r_into_rtranclp warn_step)

lemma get_magnitudes_loop_steps:
  "get_magnitudes_loop cats cs s = Inr s' \<Longrightarrow> step\<^sup>*\<^sup>* s s'"
proof (induction cs arbitrary: s)
  case Nil
  then show ?case by simp
next
  case (Cons a cs)
  then show ?case
    by (cases a) (auto split: sum.splits dest!: get_magnitudes_body_steps intro: rtranclp_trans)
qed

subsection \<open>What the elementary steps preserve\<close>

lemma step_kept: "step s s' \<Longrightarrow> used_filters s ! i = 1 \<Longrightarrow> band_kept i s s'"
proof (induction rule: step.induct)
  case (stored s j e m)
  then have "j \<noteq> i" by auto
  with stored show ?case by (simp add: band_kept_def)
qed (simp_all add: band_kept_def)

lemma band_kept_trans: "band_kept i s s' \<Longrightarrow> band_kept i s' s'' \<Longrightarrow> band_kept i s s''"
  by (simp add: band_kept_def)

lemma steps_kept:
  "step\<^sup>*\<^sup>* s s' \<Longrightarrow> used_filters s ! i = 1 \<Longrightarrow> band_kept i s s'"
proof (induction rule: rtranclp_induct)
  case base
  then show ?case by (simp add: band_kept_def)
next
  case (step y z)
  then have k: "band_kept i s y" by simp
  then have "used_filters y ! i = 1" by (simp add: band_kept_def)
  with step.hyps(2) have "band_kept i y z" by (rule step_kept)
  with k show ?case by (rule band_kept_trans)
qed

lemma step_well_formed: "step s s' \<Longrightarrow> well_formed s \<Longrightarrow> well_formed s'"
  by (induction rule: step.induct) (auto simp: well_formed_def)

lemma errs_nonzero_iff:
  "errs_nonzero s \<longleftrightarrow>
     (\<forall>i < length filter_names. used_filters s ! i = 1 \<longrightarrow> mag_errs s ! i \<noteq> 0)"
  by (auto simp: errs_nonzero_def list_all_iff)

lemma step_errs_nonzero:
  "step s s' \<Longrightarrow> well_formed s \<Longrightarrow> errs_nonzero s \<Longrightarrow> errs_nonzero s'"
proof (induction rule: step.induct)
  case (stored s j e m)
  show ?case
    unfolding errs_nonzero_iff
  proof (intro allI impI)
    fix i
    assume i: "i < length filter_names"
      and u: "used_filters (s\<lparr>used_filters := (used_filters s)[j := 1], mags := (mags s)[j := m],
               mag_errs := (mag_errs s)[j := e]\<rparr>) ! i = 1"
    show "mag_errs (s\<lparr>used_filters := (used_filters s)[j := 1], mags := (mags s)[j := m],
               mag_errs := (mag_errs s)[j := e]\<rparr>) ! i \<noteq> 0"
    proof (cases "j = i")
      case True
      with i stored show ?thesis by (simp add: well_formed_def)
    next
      case False
      with i u stored show ?thesis by (simp add: well_formed_def errs_nonzero_iff)
    qed
  qed
qed (simp_all add: errs_nonzero_def)

lemma steps_errs_nonzero:
  "step\<^sup>*\<^sup>* s s' \<Longrightarrow> well_formed s \<Longrightarrow> errs_nonzero s \<Longrightarrow> well_formed s' \<and> errs_nonzero s'"
  by (induction rule: rtranclp_induct) (auto dest: step_well_formed step_errs_nonzero)

lemma steps_well_formed: "step\<^sup>*\<^sup>* s s' \<Longrightarrow> well_formed s \<Longrightarrow> well_formed s'"
  by (induction rule: rtranclp_induct) (auto dest: step_well_formed)

lemma sample_well_formed: "well_formed (sample_lib vb)"
  by (simp add: well_formed_def sample_lib_def)

subsection \<open>\<open>gaia_query\<close> in closed form\<close>

lemma gaia_query_loop_step:
  "assign_cat c cat = Some k \<Longrightarrow>
   gaia_query_loop res (c # cs) cat IDS s =
     gaia_query_loop res cs (Some k) (AList.update k (first_id res c) IDS)
       (if verbose s then s\<lparr>warnings := warnings s @ no_match res c k\<rparr> else s)"
  by (cases "res c") (simp_all add: first_id_def no_match_def warn_def)

lemma gaia_query_result:
  "gaia_query res s =
     Inr (s\<lparr>ids := [(''ASCC'', first_id res ''tycho2''), (''APASS'', first_id res ''apassdr9''),
                   (''2MASS'', first_id res ''tmass''), (''Pan-STARRS'', first_id res ''panstarrs1''),
                   (''SDSS'', first_id res ''sdssdr9''), (''Wise'', first_id res ''allwise''),
                   (''Gaia'', g_id s)],
            warnings := warnings s @
              (if verbose s
               then no_match res ''tycho2'' ''ASCC'' @ no_match res ''panstarrs1'' ''Pan-STARRS'' @
                    no_match res ''sdssdr9'' ''SDSS'' @ no_match res ''allwise'' ''Wise'' @
                    no_match res ''tmass'' ''2MASS'' @ no_match res ''apassdr9'' ''APASS''
               else [])\<rparr>)"
proof (cases "verbose s")
  case True
  then show ?thesis
    by (simp add: gaia_query_def gaia_query_loop_step assign_cat_def del: gaia_query_loop.simps(2))
next
  case False
  then show ?thesis
    by (simp add: gaia_query_def gaia_query_loop_step assign_cat_def del: gaia_query_loop.simps(2))
qed

subsection \<open>A new object\<close>

lemma sample_lib_new: "new_librarian vb ''42'' sample_res fresh_zips = Inr (sample_lib vb)"
  by (cases vb) (simp_all add: new_librarian_def gaia_query_result sample_lib_def first_id_def
      no_match_def sample_res_def)

lemma new_librarian_invariant:
  assumes "new_librarian vb gid res zs = Inr s"
  shows "well_formed s \<and> errs_nonzero s"
  using assms
  by (auto simp: new_librarian_def gaia_query_result well_formed_def errs_nonzero_iff)

subsection \<open>A write made for one triple\<close>

lemma retrieve_single_write:
  assumes "retrieve_loop cat [(m, e, f)] s = Inr (s', rest)" and "measurement s' \<noteq> measurement s"
  shows "\<exists>i x c. filt_idx f = [i] \<and> used_filters s ! i \<noteq> 1 \<and>
           table_col cat m = [x] \<and> table_col cat e = [c] \<and>
           \<not> cmask x \<and> \<not> cmask c \<and> cval c \<noteq> 0 \<and>
           s' = s\<lparr>used_filters := (used_filters s)[i := 1], mags := (mags s)[i := cval x],
                  mag_errs := (mag_errs s)[i := cval c]\<rparr>"
proof -
  from assms have nm: "\<not> is_masked (table_col cat m)" "\<not> is_masked (table_col cat e)"
    and z: "truth (map (\<lambda>c. cval c = 0) (table_col cat e)) = Inr False"
    and a: "add_mags (table_col cat m) (table_col cat e) f s = Inr s'"
    by (auto simp: Let_def CatalogWarning_new_def warn_def measurement_def
        split: sum.splits if_splits)
  from add_mags_cases[OF a] assms(2)
  obtain i x c where "filt_idx f = [i]" "used_filters s ! i \<noteq> 1" "table_col cat m = [x]"
    "table_col cat e = [c]"
    "s' = s\<lparr>used_filters := (used_filters s)[i := 1], mags := (mags s)[i := cval x],
                  mag_errs := (mag_errs s)[i := cval c]\<rparr>"
    by auto
  with nm z show ?thesis by (auto simp: is_masked_def)
qed

subsection \<open>Warnings never influence the retrieval\<close>

lemma same_data_refl: "same_data s s"
  by (simp add: same_data_def)

lemma same_data_warn: "same_data s t \<Longrightarrow> same_data (warn m k s) t"
  and same_data_warn2: "same_data s t \<Longrightarrow> same_data s (warn m k t)"
  by (simp_all add: same_data_def warn_def)

lemma rel_sum_bind:
  assumes "rel_sum (=) R x y" and "\<And>a b. R a b \<Longrightarrow> rel_sum (=) Q (f a) (g b)"
  shows "rel_sum (=) Q (case x of Inl e \<Rightarrow> Inl e | Inr a \<Rightarrow> f a)
           (case y of Inl e \<Rightarrow> Inl e | Inr b \<Rightarrow> g b)"
  using assms by (cases x; cases y) auto

lemma add_mags_same_data:
  "same_data s t \<Longrightarrow> rel_sum (=) same_data (add_mags mag er f s) (add_mags mag er f t)"
  by (auto simp: add_mags_def Let_def same_data_def CatalogWarning_new_def split: sum.splits)

lemma retrieve_loop_same_data:
  "same_data s t \<Longrightarrow>
   rel_sum (=) (rel_prod same_data (=)) (retrieve_loop cat items s) (retrieve_loop cat items t)"
proof (induction items arbitrary: s t)
  case Nil
  then show ?case by simp
next
  case (Cons a items)
  obtain m e f where a: "a = (m, e, f)" by (cases a) auto
  from Cons.prems have u: "used_filters t = used_filters s" by (simp add: same_data_def)
  have "rel_sum (=) (rel_prod same_data (=))
      (case add_mags (table_col cat m) (table_col cat e) f s of
         Inl x \<Rightarrow> Inl x | Inr s' \<Rightarrow> retrieve_loop cat items s')
      (case add_mags (table_col cat m) (table_col cat e) f t of
         Inl x \<Rightarrow> Inl x | Inr s' \<Rightarrow> retrieve_loop cat items s')"
    by (rule rel_sum_bind[OF add_mags_same_data[OF Cons.prems]]) (rule Cons.IH)
  with Cons.prems show ?case
    unfolding a
    by (simp add: Let_def u CatalogWarning_new_def same_data_warn same_data_warn2
        split: sum.splits)
qed

lemma retrieve_from_cat_same_data:
  "same_data s t \<Longrightarrow>
   rel_sum (=) same_data (retrieve_from_cat cat name s) (retrieve_from_cat cat name t)"
proof -
  assume st: "same_data s t"
  then have z: "zips t = zips s" by (simp add: same_data_def)
  show ?thesis
  proof (cases "map_of (zips s) name")
    case None
    then show ?thesis by (simp add: retrieve_from_cat_def z)
  next
    case (Some items)
    have "rel_sum (=) same_data
        (case retrieve_loop cat items s of Inl x \<Rightarrow> Inl x
         | Inr p \<Rightarrow> (case p of (s', rest) \<Rightarrow> Inr (s'\<lparr>zips := AList.update name rest (zips s')\<rparr>)))
        (case retrieve_loop cat items t of Inl x \<Rightarrow> Inl x
         | Inr p \<Rightarrow> (case p of (s', rest) \<Rightarrow> Inr (s'\<lparr>zips := AList.update name rest (zips s')\<rparr>)))"
      by (rule rel_sum_bind[OF retrieve_loop_same_data[OF st]]) (auto simp: same_data_def)
    with Some show ?thesis by (simp add: retrieve_from_cat_def z)
  qed
qed

lemma get_by_column_same_data:
  "same_data s t \<Longrightarrow>
   rel_sum (=) same_data (get_by_column col name cat s) (get_by_column col name cat t)"
proof -
  assume st: "same_data s t"
  then have "ids t = ids s" by (simp add: same_data_def)
  with st show ?thesis
    by (auto simp: get_by_column_def split: option.splits intro: retrieve_from_cat_same_data)
qed

lemma get_ascc_same_data:
  "same_data s t \<Longrightarrow> rel_sum (=) same_data (get_ascc cat s) (get_ascc cat t)"
proof -
  assume st: "same_data s t"
  then have "ids t = ids s" by (simp add: same_data_def)
  with st show ?thesis
    by (auto simp: get_ascc_def split: option.splits sum.splits intro: retrieve_from_cat_same_data)
qed

lemma get_gaia_same_data:
  "same_data s t \<Longrightarrow> rel_sum (=) same_data (get_gaia cat s) (get_gaia cat t)"
proof -
  assume st: "same_data s t"
  then have "ids t = ids s" by (simp add: same_data_def)
  with st show ?thesis
    by (auto simp: get_gaia_def split: option.splits intro: retrieve_from_cat_same_data)
qed

lemma get_magnitudes_body_same_data:
  assumes "same_data s t"
  shows "rel_sum (=) same_data (get_magnitudes_body cats c key s) (get_magnitudes_body cats c key t)"
proof -
  from assms have i: "ids t = ids s" and v: "verbose t = verbose s"
    by (simp_all add: same_data_def)
  show ?thesis
  proof (cases "map_of (ids s) c")
    case None
    with assms show ?thesis
      by (simp add: get_magnitudes_body_def i v same_data_warn same_data_warn2
          split: option.splits)
  next
    case (Some x)
    note x = this
    show ?thesis
    proof (cases "x = ''skipped''")
      case True
      with x assms show ?thesis by (simp add: get_magnitudes_body_def i)
    next
      case False
      note ns = this
      show ?thesis
      proof (cases "map_of cats key")
        case None
        with x ns assms show ?thesis
          by (simp add: get_magnitudes_body_def i same_data_warn same_data_warn2)
      next
        case (Some cur)
        have "rel_sum (=) same_data (get_apass cur s) (get_apass cur t)"
          "rel_sum (=) same_data (get_wise cur s) (get_wise cur t)"
          "rel_sum (=) same_data (get_ascc cur s) (get_ascc cur t)"
          "rel_sum (=) same_data (get_sdss cur s) (get_sdss cur t)"
          "rel_sum (=) same_data (get_ps1 cur s) (get_ps1 cur t)"
          "rel_sum (=) same_data (get_gaia cur s) (get_gaia cur t)"
          using assms
          by (simp_all add: get_apass_def get_wise_def get_sdss_def get_ps1_def
              get_by_column_same_data get_ascc_same_data get_gaia_same_data)
        with x ns Some assms show ?thesis
          by (simp add: get_magnitudes_body_def i)
      qed
    qed
  qed
qed

lemma get_magnitudes_loop_same_data:
  "same_data s t \<Longrightarrow>
   rel_sum (=) same_data (get_magnitudes_loop cats cs s) (get_magnitudes_loop cats cs t)"
proof (induction cs arbitrary: s t)
  case Nil
  then show ?case by simp
next
  case (Cons a cs)
  obtain c key where a: "a = (c, key)" by (cases a) auto
  have "rel_sum (=) same_data
      (case get_magnitudes_body cats c key s of Inl x \<Rightarrow> Inl x
       | Inr s' \<Rightarrow> get_magnitudes_loop cats cs s')
      (case get_magnitudes_body cats c key t of Inl x \<Rightarrow> Inl x
       | Inr s' \<Rightarrow> get_magnitudes_loop cats cs s')"
    by (rule rel_sum_bind[OF get_magnitudes_body_same_data[OF Cons.prems]]) (rule Cons.IH)
  then show ?case unfolding a by simp
qed

subsection \<open>The catalogues the dispatch leaves out\<close>

lemma skip_body:
  assumes "c = ''2MASS'' \<or> c = ''GALEX''"
  shows "\<exists>t. get_magnitudes_body cats c key s = Inr t \<and> same_data t s"
  using assms
  by (auto simp: get_magnitudes_body_def same_data_def warn_def split: option.splits)

lemma loop_without_skipped:
  "same_data s t \<Longrightarrow>
   rel_sum (=) same_data (get_magnitudes_loop cats cs s)
     (get_magnitudes_loop cats (filter (\<lambda>(c, key). c \<noteq> ''2MASS'' \<and> c \<noteq> ''GALEX'') cs) t)"
proof (induction cs arbitrary: s t)
  case Nil
  then show ?case by simp
next
  case (Cons a cs)
  obtain c key where a: "a = (c, key)" by (cases a) auto
  show ?case
  proof (cases "c = ''2MASS'' \<or> c = ''GALEX''")
    case True
    from skip_body[OF True, of cats key s] obtain u
      where u: "get_magnitudes_body cats c key s = Inr u" "same_data u s" by blast
    with Cons.prems have "same_data u t" by (simp add: same_data_def)
    then have "rel_sum (=) same_data (get_magnitudes_loop cats cs u)
       (get_magnitudes_loop cats (filter (\<lambda>(c, key). c \<noteq> ''2MASS'' \<and> c \<noteq> ''GALEX'') cs) t)"
      by (rule Cons.IH)
    with True u show ?thesis unfolding a by auto
  next
    case False
    have "rel_sum (=) same_data
      (case get_magnitudes_body cats c key s of Inl x \<Rightarrow> Inl x
       | Inr s' \<Rightarrow> get_magnitudes_loop cats cs s')
      (case get_magnitudes_body cats c key t of Inl x \<Rightarrow> Inl x
       | Inr s' \<Rightarrow>
           get_magnitudes_loop cats (filter (\<lambda>(c, key). c \<noteq> ''2MASS'' \<and> c \<noteq> ''GALEX'') cs) s')"
      by (rule rel_sum_bind[OF get_magnitudes_body_same_data[OF Cons.prems]]) (rule Cons.IH)
    with False show ?thesis unfolding a by simp
  qed
qed

subsection \<open>First writer wins\<close>

text \<open>
  For a band \<open>i\<close> of the registry, \<open>_add_mags\<close> called when \<open>used_filters[i]\<close> is
  already 1 changes nothing; called with one magnitude and one error value for a band that
  is not used, it sets \<open>used_filters[i] = 1\<close>, stores the two values at \<open>i\<close> and leaves
  every other band as it was. A band that is used keeps its flag, magnitude and error
  through the processing of any catalogue (the body of the loop of \<open>get_magnitudes\<close>) and
  through a whole call of \<open>get_magnitudes\<close>.
\<close>

lemma add_mags_first_writer_wins:
  assumes "well_formed s" and "filt_idx f = [i]"
  shows "(used_filters s ! i = 1 \<longrightarrow> add_mags [m] [e] f s = Inr s) \<and>
         (used_filters s ! i \<noteq> 1 \<longrightarrow>
            (\<exists>s'. add_mags [m] [e] f s = Inr s' \<and> band i s' = (1, cval m, cval e) \<and>
                  (\<forall>k. k \<noteq> i \<longrightarrow> band k s' = band k s))) \<and>
         (\<forall>k cats c key s'. used_filters s ! k = 1 \<longrightarrow>
            get_magnitudes_body cats c key s = Inr s' \<longrightarrow> band_kept k s s') \<and>
         (\<forall>k cats s'. used_filters s ! k = 1 \<longrightarrow>
            get_magnitudes cats s = Inr s' \<longrightarrow> band_kept k s s')"
proof (intro conjI impI allI)
  assume "used_filters s ! i = 1"
  with assms(2) show "add_mags [m] [e] f s = Inr s" by (rule add_mags_used)
next
  assume u: "used_filters s ! i \<noteq> 1"
  from assms(2) have "i < length filter_names" by (rule filt_idx_bound)
  with assms(1) have "i < length (used_filters s)" "i < length (mags s)" "i < length (mag_errs s)"
    by (simp_all add: well_formed_def)
  then show "\<exists>s'. add_mags [m] [e] f s = Inr s' \<and> band i s' = (1, cval m, cval e) \<and>
                  (\<forall>k. k \<noteq> i \<longrightarrow> band k s' = band k s)"
    using add_mags_fresh[OF assms(2) u, of m e] by (simp add: band_def)
next
  fix k cats c key s'
  assume "used_filters s ! k = 1" and "get_magnitudes_body cats c key s = Inr s'"
  then show "band_kept k s s'" by (blast intro: steps_kept get_magnitudes_body_steps)
next
  fix k cats s'
  assume "used_filters s ! k = 1" and "get_magnitudes cats s = Inr s'"
  then show "band_kept k s s'"
    unfolding get_magnitudes_def by (blast intro: steps_kept get_magnitudes_loop_steps)
qed

section \<open>The claims\<close>

text \<open>
  C1 fails on the code for a selection without a row. The Vizier table of Gaia holds no
  row of the target, so the selector hands an empty table to the extractor, and line 330
  calls \<open>_add_mags\<close> with the empty magnitude and error columns for the band
  \<open>GaiaDR2v2_G\<close>, which is not used. The call does not store a magnitude and an error:
  the store of the empty column into the band raises \<open>ValueError\<close> (in the source after
  line 338 has already set the flag), and the exception leaves \<open>_retrieve_from_cat\<close>
  and the selector. What the claim says does hold whenever the band is used already or
  one magnitude and one error value are given (\<open>add_mags_first_writer_wins\<close>).
\<close>

theorem add_mags_empty_selection_raises:
  "select_rows [gaia_row_other] (col_eq [gaia_row_other] ''DR2Name'' (''Gaia DR2 '' @ ''42'')) = [] \<and>
   table_col [] ''Gmag'' = [] \<and> table_col [] ''e_Gmag'' = [] \<and>
   filt_idx ''GaiaDR2v2_G'' = [6] \<and> used_filters (sample_lib False) ! 6 = 0 \<and>
   add_mags [] [] ''GaiaDR2v2_G'' (sample_lib False) = Inl ValueError \<and>
   retrieve_from_cat [] ''Gaia'' (sample_lib False) = Inl ValueError \<and>
   get_gaia [gaia_row_other] (sample_lib False) = Inl ValueError"
proof (intro conjI)
  show "select_rows [gaia_row_other] (col_eq [gaia_row_other] ''DR2Name'' (''Gaia DR2 '' @ ''42'')) = []"
    by (simp add: select_rows_def col_eq_def gaia_row_other_def mk_row_def)
  show "table_col [] ''Gmag'' = []" "table_col [] ''e_Gmag'' = []"
    by (simp_all add: table_col_def)
qed code_simp+




text \<open>
  C3, as the code has it. The validator rejects an error that is masked or equal to zero
  and nothing else, so the error of an accepted triple is different from zero; it need
  not be positive. A call of the extractor's loop for one triple that changes the
  measurement vector has stored the single unmasked, nonzero entry of the error column;
  \<open>get_magnitudes\<close> preserves "every used band has a nonzero error"; and in the vector
  a run returns, the error of every used band is different from zero.
\<close>

theorem used_bands_have_nonzero_error:
  "(retrieve_loop cat [(m, e, f)] s = Inr (s', rest) \<and> measurement s' \<noteq> measurement s \<longrightarrow>
      (\<exists>i x c. filt_idx f = [i] \<and> table_col cat m = [x] \<and> table_col cat e = [c] \<and>
         \<not> cmask c \<and> cval c \<noteq> 0 \<and>
         s' = s\<lparr>used_filters := (used_filters s)[i := 1], mags := (mags s)[i := cval x],
                mag_errs := (mag_errs s)[i := cval c]\<rparr>)) \<and>
   (well_formed s \<and> errs_nonzero s \<and> get_magnitudes cats s = Inr s' \<longrightarrow> errs_nonzero s') \<and>
   (run vb gid res cats zs = Inr s' \<and> k < length filter_names \<and> used_filters s' ! k = 1 \<longrightarrow>
      mag_errs s' ! k \<noteq> 0)"
proof (intro conjI impI)
  assume "retrieve_loop cat [(m, e, f)] s = Inr (s', rest) \<and> measurement s' \<noteq> measurement s"
  then show "\<exists>i x c. filt_idx f = [i] \<and> table_col cat m = [x] \<and> table_col cat e = [c] \<and>
         \<not> cmask c \<and> cval c \<noteq> 0 \<and>
         s' = s\<lparr>used_filters := (used_filters s)[i := 1], mags := (mags s)[i := cval x],
                mag_errs := (mag_errs s)[i := cval c]\<rparr>"
    using retrieve_single_write[of cat m e f s s' rest] by blast
next
  assume "well_formed s \<and> errs_nonzero s \<and> get_magnitudes cats s = Inr s'"
  then show "errs_nonzero s'"
    unfolding get_magnitudes_def
    by (blast dest: get_magnitudes_loop_steps steps_errs_nonzero)
next
  assume a: "run vb gid res cats zs = Inr s' \<and> k < length filter_names \<and> used_filters s' ! k = 1"
  then obtain s0 where n: "new_librarian vb gid res zs = Inr s0"
    and g: "get_magnitudes_loop cats catalog_keys s0 = Inr s'"
    by (auto simp: run_def get_magnitudes_def split: sum.splits)
  from n have "well_formed s0 \<and> errs_nonzero s0" by (rule new_librarian_invariant)
  with get_magnitudes_loop_steps[OF g] have "errs_nonzero s'"
    by (blast dest: steps_errs_nonzero)
  with a show "mag_errs s' ! k \<noteq> 0" by (simp add: errs_nonzero_iff)
qed

theorem used_bands_have_nonzero_error_witness:
  "retrieve_loop [gaia_row_negative] [(''Gmag'', ''e_Gmag'', ''GaiaDR2v2_G'')] (sample_lib False) =
     Inr ((sample_lib False)
       \<lparr>used_filters := (used_filters (sample_lib False))[6 := 1],
        mags := (mags (sample_lib False))[6 := 10.5],
        mag_errs := (mag_errs (sample_lib False))[6 := - 0.02]\<rparr>, []) \<and>
   measurement ((sample_lib False)
       \<lparr>used_filters := (used_filters (sample_lib False))[6 := 1],
        mags := (mags (sample_lib False))[6 := 10.5],
        mag_errs := (mag_errs (sample_lib False))[6 := - 0.02]\<rparr>) \<noteq> measurement (sample_lib False) \<and>
   (\<exists>c. table_col [gaia_row_negative] ''e_Gmag'' = [c] \<and> \<not> cmask c \<and> cval c \<noteq> 0) \<and>
   well_formed (sample_lib False) \<and> errs_nonzero (sample_lib False) \<and>
   get_magnitudes [(''I/345/gaia2'', [gaia_row_negative])] (sample_lib False) =
     Inr ((sample_lib False)
       \<lparr>used_filters := (used_filters (sample_lib False))[6 := 1, 8 := 1, 7 := 1],
        mags := (mags (sample_lib False))[6 := 10.5, 8 := 11, 7 := 10],
        mag_errs := (mag_errs (sample_lib False))[6 := - 0.02, 8 := 0.03, 7 := 0.03],
        zips := AList.update ''Gaia'' [] fresh_zips,
        warnings := [(''ASCC'', 5), (''2MASS'', 5)]\<rparr>) \<and>
   errs_nonzero ((sample_lib False)
       \<lparr>used_filters := (used_filters (sample_lib False))[6 := 1, 8 := 1, 7 := 1],
        mags := (mags (sample_lib False))[6 := 10.5, 8 := 11, 7 := 10],
        mag_errs := (mag_errs (sample_lib False))[6 := - 0.02, 8 := 0.03, 7 := 0.03],
        zips := AList.update ''Gaia'' [] fresh_zips,
        warnings := [(''ASCC'', 5), (''2MASS'', 5)]\<rparr>) \<and>
   run False ''42'' sample_res [(''I/345/gaia2'', [gaia_row_negative])] fresh_zips =
     Inr ((sample_lib False)
       \<lparr>used_filters := (used_filters (sample_lib False))[6 := 1, 8 := 1, 7 := 1],
        mags := (mags (sample_lib False))[6 := 10.5, 8 := 11, 7 := 10],
        mag_errs := (mag_errs (sample_lib False))[6 := - 0.02, 8 := 0.03, 7 := 0.03],
        zips := AList.update ''Gaia'' [] fresh_zips,
        warnings := [(''ASCC'', 5), (''2MASS'', 5)]\<rparr>) \<and>
   (6 :: nat) < length filter_names \<and>
   mag_errs ((sample_lib False)
       \<lparr>used_filters := (used_filters (sample_lib False))[6 := 1, 8 := 1, 7 := 1],
        mags := (mags (sample_lib False))[6 := 10.5, 8 := 11, 7 := 10],
        mag_errs := (mag_errs (sample_lib False))[6 := - 0.02, 8 := 0.03, 7 := 0.03],
        zips := AList.update ''Gaia'' [] fresh_zips,
        warnings := [(''ASCC'', 5), (''2MASS'', 5)]\<rparr>) ! 6 \<noteq> 0"
proof -
  let ?s1 = "(sample_lib False)
       \<lparr>used_filters := (used_filters (sample_lib False))[6 := 1],
        mags := (mags (sample_lib False))[6 := 10.5],
        mag_errs := (mag_errs (sample_lib False))[6 := - 0.02]\<rparr>"
  let ?s' = "(sample_lib False)
       \<lparr>used_filters := (used_filters (sample_lib False))[6 := 1, 8 := 1, 7 := 1],
        mags := (mags (sample_lib False))[6 := 10.5, 8 := 11, 7 := 10],
        mag_errs := (mag_errs (sample_lib False))[6 := - 0.02, 8 := 0.03, 7 := 0.03],
        zips := AList.update ''Gaia'' [] fresh_zips,
        warnings := [(''ASCC'', 5), (''2MASS'', 5)]\<rparr>"
  have l: "retrieve_loop [gaia_row_negative] [(''Gmag'', ''e_Gmag'', ''GaiaDR2v2_G'')]
      (sample_lib False) = Inr (?s1, [])"
    by code_simp
  have d: "measurement ?s1 \<noteq> measurement (sample_lib False)"
    by (simp add: measurement_def sample_lib_def filter_names_def)
  from used_bands_have_nonzero_error[where cat = "[gaia_row_negative]" and m = "''Gmag''"
      and e = "''e_Gmag''" and f = "''GaiaDR2v2_G''" and s = "sample_lib False" and s' = ?s1
      and rest = "[]"] l d
  have w: "\<exists>c. table_col [gaia_row_negative] ''e_Gmag'' = [c] \<and> \<not> cmask c \<and> cval c \<noteq> 0"
    by blast
  have wf: "well_formed (sample_lib False)" by (rule sample_well_formed)
  have en: "errs_nonzero (sample_lib False)" by code_simp
  have g: "get_magnitudes [(''I/345/gaia2'', [gaia_row_negative])] (sample_lib False) = Inr ?s'"
    by code_simp
  from used_bands_have_nonzero_error[where s = "sample_lib False" and s' = ?s'
      and cats = "[(''I/345/gaia2'', [gaia_row_negative])]"] wf en g
  have en': "errs_nonzero ?s'" by blast
  have r: "run False ''42'' sample_res [(''I/345/gaia2'', [gaia_row_negative])] fresh_zips = Inr ?s'"
    by code_simp
  have k: "(6 :: nat) < length filter_names" by (simp add: filter_names_def)
  have u: "used_filters ?s' ! 6 = 1" by (simp add: sample_lib_def filter_names_def)
  from used_bands_have_nonzero_error[where vb = False and gid = "''42''" and res = sample_res
      and cats = "[(''I/345/gaia2'', [gaia_row_negative])]" and zs = fresh_zips and s' = ?s'
      and k = 6] r k u
  have "mag_errs ?s' ! 6 \<noteq> 0" by blast
  with l d w wf en g en' r k show ?thesis by blast
qed

text \<open>
  C3 as claimed fails: it says the error of an accepted triple, and of every used band of
  the final vector, is strictly greater than zero. A Gaia row whose G error is - 0.02 is
  accepted, and the run returns band 6 (\<open>GaiaDR2v2_G\<close>) used with that error.
\<close>

theorem negative_error_accepted_counterexample:
  "magcol gaia_row_negative ''e_Gmag'' = Cell (- 0.02) False \<and>
   map_sum id (band 6) (run False ''42'' sample_res [(''I/345/gaia2'', [gaia_row_negative])] fresh_zips) =
     Inr (1, 10.5, - 0.02) \<and>
   \<not> (0 :: real) < - 0.02"
  by code_simp




text \<open>
  C5 fails on the code. The iterators of \<open>catalogs\<close> belong to the class and are consumed
  by the first run. A second run in the same process, with the same identifiers and the
  same tables, finds them exhausted: the first run fills the three Gaia bands, the second
  returns an all-unused vector. Where the first run stopped early the warnings differ
  too: the first run warns about the masked V magnitude of ASCC, the second resumes
  after it and does not.
\<close>

theorem second_run_differs:
  "map_sum id (map_prod measurement measurement)
     (run_twice False ''42'' sample_res [(''I/345/gaia2'', [gaia_row_other, gaia_row])]) =
   Inr (((replicate 24 0)[6 := 1, 7 := 1, 8 := 1],
         (replicate 24 0)[6 := 10.5, 7 := 10, 8 := 11],
         (replicate 24 0)[6 := 0.02, 7 := 0.03, 8 := 0.03]),
        (replicate 24 0, replicate 24 0, replicate 24 0)) \<and>
   map_sum id (map_prod warnings warnings) (run_twice False ''42'' sample_res sample_cats) =
   Inr ([(''Vmag'', 2)], [])"
  by code_simp

text \<open>
  C6 fails on the code for 2MASS. The target's 2MASS identifier is known (\<open>J1\<close>, not the
  sentinel), the Vizier answer holds the 2MASS table, and the selector \<open>_get_2mass\<close>
  applied to it would fill the bands J, H and K; but the dispatch of \<open>get_magnitudes\<close>
  has no branch for 2MASS: the body of the loop returns the state as it was, and the run
  returns an all-unused vector.
\<close>

theorem twomass_never_retrieved:
  "map_of (ids (sample_lib False)) ''2MASS'' = Some ''J1'' \<and>
   map_of [(''II/246/out'', [twomass_row])] ''II/246/out'' = Some [twomass_row] \<and>
   map_sum id measurement (get_2mass [twomass_row] (sample_lib False)) =
     Inr ((replicate 24 0)[0 := 1, 1 := 1, 2 := 1],
          (replicate 24 0)[0 := 7.8, 1 := 8, 2 := 7.7],
          (replicate 24 0)[0 := 0.02, 1 := 0.02, 2 := 0.02]) \<and>
   get_magnitudes_body [(''II/246/out'', [twomass_row])] ''2MASS'' ''II/246/out'' (sample_lib False) =
     Inr (sample_lib False) \<and>
   map_sum id measurement (run False ''42'' sample_res [(''II/246/out'', [twomass_row])] fresh_zips) =
     Inr (replicate 24 0, replicate 24 0, replicate 24 0)"
proof (intro conjI)
  show "map_of [(''II/246/out'', [twomass_row])] ''II/246/out'' = Some [twomass_row]" by simp
qed code_simp+

text \<open>
  C7, as the code has it. A catalogue whose cross-match identifier is the sentinel
  \<open>'skipped'\<close> is passed over by \<open>get_magnitudes\<close> with no write and no warning: the
  body of the loop returns the state as it was. The warning for the missing cross-match
  is emitted by \<open>gaia_query\<close>, which stores the sentinel when the archive's answer is
  empty: exactly one warning (the catalogue, code 5) when \<open>verbose\<close> is on, none when it
  is off.
\<close>

theorem no_match_catalog:
  "(map_of (ids s) c = Some ''skipped'' \<longrightarrow> get_magnitudes_body cats c key s = Inr s) \<and>
   ((n, k) \<in> set cross_matches \<and> res n = [] \<longrightarrow>
      (\<exists>s'. gaia_query res s = Inr s' \<and> map_of (ids s') k = Some ''skipped'' \<and>
            measurement s' = measurement s \<and>
            count_list (warnings s') (k, 5) =
              count_list (warnings s) (k, 5) + (if verbose s then 1 else 0)))"
  by (auto simp: get_magnitudes_body_def gaia_query_result cross_matches_def first_id_def
      no_match_def measurement_def)

theorem no_match_catalog_witness:
  "map_of (ids (sample_lib True)) ''APASS'' = Some ''skipped'' \<and>
   get_magnitudes_body sample_cats ''APASS'' ''II/336/apass9'' (sample_lib True) = Inr (sample_lib True) \<and>
   (''apassdr9'', ''APASS'') \<in> set cross_matches \<and> sample_res ''apassdr9'' = [] \<and>
   new_librarian True ''42'' sample_res fresh_zips = Inr (sample_lib True) \<and>
   count_list (warnings (sample_lib True)) (''APASS'', 5) = 1"
proof -
  let ?s0 = "\<lparr>verbose = True, g_id = ''42'', ids = [],
        used_filters = replicate (length filter_names) 0,
        mags = replicate (length filter_names) 0,
        mag_errs = replicate (length filter_names) 0,
        zips = fresh_zips, warnings = []\<rparr>"
  have i: "map_of (ids (sample_lib True)) ''APASS'' = Some ''skipped''"
    by (simp add: sample_lib_def)
  have m: "(''apassdr9'', ''APASS'') \<in> set cross_matches" by (simp add: cross_matches_def)
  have r: "sample_res ''apassdr9'' = []" by (simp add: sample_res_def)
  have n: "new_librarian True ''42'' sample_res fresh_zips = Inr (sample_lib True)"
    by (simp add: new_librarian_def gaia_query_result sample_lib_def first_id_def
      no_match_def sample_res_def)
  then have g: "gaia_query sample_res ?s0 = Inr (sample_lib True)"
    by (simp add: new_librarian_def)
  from no_match_catalog[where s = "sample_lib True" and c = "''APASS''" and cats = sample_cats
      and key = "''II/336/apass9''"] i
  have b: "get_magnitudes_body sample_cats ''APASS'' ''II/336/apass9'' (sample_lib True) =
      Inr (sample_lib True)" by blast
  from no_match_catalog[where n = "''apassdr9''" and k = "''APASS''" and res = sample_res
      and s = ?s0] m r g
  have "count_list (warnings (sample_lib True)) (''APASS'', 5) = 1" by auto
  with i m r n b show ?thesis by blast
qed

text \<open>
  C7 as claimed fails: it says exactly one NoCrossMatch warning is produced for the
  catalogue whatever the verbosity. With \<open>verbose\<close> off, the first target has no APASS,
  Pan-STARRS, SDSS or Wise neighbour (their identifiers are the sentinel), and the run
  ends with no warning at all.
\<close>

theorem no_match_silent_counterexample:
  "map_sum id ids
     (run False ''42'' sample_res
        [(''I/280B/ascc'', [ascc_row_full]), (''I/345/gaia2'', [gaia_row]), (''II/246/out'', [twomass_row])]
        fresh_zips) =
     Inr [(''ASCC'', ''1234-567-1''), (''APASS'', ''skipped''), (''2MASS'', ''J1''),
          (''Pan-STARRS'', ''skipped''), (''SDSS'', ''skipped''), (''Wise'', ''skipped''),
          (''Gaia'', ''42'')] \<and>
   map_sum id warnings
     (run False ''42'' sample_res
        [(''I/280B/ascc'', [ascc_row_full]), (''I/345/gaia2'', [gaia_row]), (''II/246/out'', [twomass_row])]
        fresh_zips) = Inr []"
  by code_simp

text \<open>
  C8 fails on the code. For a catalogue of the identifier mapping only the table look-up
  is guarded; an exception raised by the row selector or the extractor leaves
  \<open>get_magnitudes\<close>. The run aborts with \<open>ValueError\<close> when the Gaia table holds no row
  of the target (an empty column cannot be stored into the band), when it holds two (the
  truth value of a two-element comparison is ambiguous), and when the ASCC identifier
  does not have three components.
\<close>

theorem selection_failure_aborts_run:
  "run False ''42'' sample_res [(''I/345/gaia2'', [gaia_row_other])] fresh_zips = Inl ValueError \<and>
   run False ''42'' sample_res [(''I/345/gaia2'', [gaia_row, gaia_row])] fresh_zips = Inl ValueError \<and>
   run False ''42'' (\<lambda>c. if c = ''tycho2'' then [''1234-567''] else [])
     [(''I/280B/ascc'', [ascc_row_full])] fresh_zips = Inl ValueError"
  by code_simp

text \<open>
  C9. For the composite-identifier catalogue ASCC, with the cross-match identifier split
  at its dashes into the three components \<open>t1\<close>, \<open>t2\<close>, \<open>t3\<close>, the rows \<open>_get_ascc\<close>
  selects are exactly the rows of the table whose columns TYC1, TYC2 and TYC3 equal
  \<open>t1\<close>, \<open>t2\<close> and \<open>t3\<close> all at once, in table order; these rows are what it hands to
  the extractor. A row that agrees in two components only is not selected.
\<close>

theorem ascc_rows_all_three:
  assumes "split_on CHR ''-'' i = [t1, t2, t3]"
  shows "ascc_rows cat i =
           Inr (filter (\<lambda>r. idcol r ''TYC1'' = t1 \<and> idcol r ''TYC2'' = t2 \<and> idcol r ''TYC3'' = t3) cat) \<and>
         (map_of (ids s) ''ASCC'' = Some i \<longrightarrow>
            get_ascc cat s =
              retrieve_from_cat
                (filter (\<lambda>r. idcol r ''TYC1'' = t1 \<and> idcol r ''TYC2'' = t2 \<and> idcol r ''TYC3'' = t3) cat)
                ''ASCC'' s)"
proof -
  have "select_rows cat
          (mask_mul (mask_mul (col_eq cat ''TYC1'' t1) (col_eq cat ''TYC2'' t2)) (col_eq cat ''TYC3'' t3)) =
        filter (\<lambda>r. (idcol r ''TYC1'' = t1 \<and> idcol r ''TYC2'' = t2) \<and> idcol r ''TYC3'' = t3) cat"
    by (simp add: col_eq_def mask_mul_map select_rows_map)
  with assms have "ascc_rows cat i =
      Inr (filter (\<lambda>r. idcol r ''TYC1'' = t1 \<and> idcol r ''TYC2'' = t2 \<and> idcol r ''TYC3'' = t3) cat)"
    by (simp add: ascc_rows_def Let_def conj_assoc)
  then show ?thesis by (simp add: get_ascc_def)
qed

theorem ascc_rows_all_three_witness:
  "split_on CHR ''-'' ''1234-567-1'' = [''1234'', ''567'', ''1''] \<and>
   idcol ascc_row_near ''TYC1'' = ''1234'' \<and> idcol ascc_row_near ''TYC2'' = ''567'' \<and>
   idcol ascc_row_near ''TYC3'' = ''2'' \<and>
   ascc_rows [ascc_row_near, ascc_row_full] ''1234-567-1'' = Inr [ascc_row_full] \<and>
   ascc_rows [ascc_row_near] ''1234-567-1'' = Inr [] \<and>
   map_of (ids (sample_lib False)) ''ASCC'' = Some ''1234-567-1'' \<and>
   get_ascc [ascc_row_near, ascc_row_full] (sample_lib False) =
     retrieve_from_cat [ascc_row_full] ''ASCC'' (sample_lib False)"
proof -
  have sp: "split_on CHR ''-'' ''1234-567-1'' = [''1234'', ''567'', ''1'']" by simp
  have near: "idcol ascc_row_near ''TYC1'' = ''1234''" "idcol ascc_row_near ''TYC2'' = ''567''"
    "idcol ascc_row_near ''TYC3'' = ''2''"
    by (simp_all add: ascc_row_near_def mk_row_def)
  have full: "idcol ascc_row_full ''TYC1'' = ''1234''" "idcol ascc_row_full ''TYC2'' = ''567''"
    "idcol ascc_row_full ''TYC3'' = ''1''"
    by (simp_all add: ascc_row_full_def mk_row_def)
  have i: "map_of (ids (sample_lib False)) ''ASCC'' = Some ''1234-567-1''"
    by (simp add: sample_lib_def)
  from ascc_rows_all_three[OF sp, of "[ascc_row_near, ascc_row_full]" "sample_lib False"]
    ascc_rows_all_three[OF sp, of "[ascc_row_near]"] sp near full i
  show ?thesis by simp
qed

text \<open>
  C10. 2MASS and GALEX contribute no write. Whatever the state and the Vizier answer,
  the body of the loop of \<open>get_magnitudes\<close> for 2MASS and for GALEX returns normally with
  the measurement vector and the iterators unchanged: no branch of the dispatch calls
  the 2MASS selector, and for GALEX, which \<open>gaia_query\<close> never enters into the identifier
  mapping (while it always enters 2MASS), the call without the catalogue's name raises
  and the handler swallows it, emitting a warning only when verbose. So a whole call of
  \<open>get_magnitudes\<close> ends as the loop over the six other catalogues does: with the same
  exception, or with a state that differs at most in the warnings.
\<close>

theorem twomass_galex_contribute_nothing:
  "map_sum id measurement (get_magnitudes_body cats ''2MASS'' key s) = Inr (measurement s) \<and>
   map_sum id zips (get_magnitudes_body cats ''2MASS'' key s) = Inr (zips s) \<and>
   map_sum id measurement (get_magnitudes_body cats ''GALEX'' key s) = Inr (measurement s) \<and>
   map_sum id zips (get_magnitudes_body cats ''GALEX'' key s) = Inr (zips s) \<and>
   (map_of (ids s) ''GALEX'' = None \<longrightarrow>
      get_magnitudes_body cats ''GALEX'' key s = Inr (if verbose s then warn ''GALEX'' 5 s else s)) \<and>
   (gaia_query res s = Inr s' \<longrightarrow> map_of (ids s') ''GALEX'' = None \<and> map_of (ids s') ''2MASS'' \<noteq> None) \<and>
   rel_sum (=) same_data (get_magnitudes cats s)
     (get_magnitudes_loop cats
        [(''ASCC'', ''I/280B/ascc''), (''APASS'', ''II/336/apass9''), (''Wise'', ''II/328/allwise''),
         (''Pan-STARRS'', ''II/349/ps1''), (''Gaia'', ''I/345/gaia2''), (''SDSS'', ''V/147/sdss12'')] s)"
proof (intro conjI impI)
  show "map_sum id measurement (get_magnitudes_body cats ''2MASS'' key s) = Inr (measurement s)"
    by (simp add: get_magnitudes_body_def measurement_def warn_def split: option.splits)
  show "map_sum id zips (get_magnitudes_body cats ''2MASS'' key s) = Inr (zips s)"
    by (simp add: get_magnitudes_body_def warn_def split: option.splits)
  show "map_sum id measurement (get_magnitudes_body cats ''GALEX'' key s) = Inr (measurement s)"
    by (simp add: get_magnitudes_body_def measurement_def warn_def split: option.splits)
  show "map_sum id zips (get_magnitudes_body cats ''GALEX'' key s) = Inr (zips s)"
    by (simp add: get_magnitudes_body_def warn_def split: option.splits)
next
  assume "map_of (ids s) ''GALEX'' = None"
  then show "get_magnitudes_body cats ''GALEX'' key s = Inr (if verbose s then warn ''GALEX'' 5 s else s)"
    by (simp add: get_magnitudes_body_def split: option.splits)
next
  assume "gaia_query res s = Inr s'"
  then show "map_of (ids s') ''GALEX'' = None" by (auto simp: gaia_query_result)
next
  assume "gaia_query res s = Inr s'"
  then show "map_of (ids s') ''2MASS'' \<noteq> None" by (auto simp: gaia_query_result)
next
  have "filter (\<lambda>(c, key). c \<noteq> ''2MASS'' \<and> c \<noteq> ''GALEX'') catalog_keys =
      [(''ASCC'', ''I/280B/ascc''), (''APASS'', ''II/336/apass9''), (''Wise'', ''II/328/allwise''),
       (''Pan-STARRS'', ''II/349/ps1''), (''Gaia'', ''I/345/gaia2''), (''SDSS'', ''V/147/sdss12'')]"
    by (simp add: catalog_keys_def catalogs_def)
  with loop_without_skipped[OF same_data_refl, of cats catalog_keys s]
  show "rel_sum (=) same_data (get_magnitudes cats s)
     (get_magnitudes_loop cats
        [(''ASCC'', ''I/280B/ascc''), (''APASS'', ''II/336/apass9''), (''Wise'', ''II/328/allwise''),
         (''Pan-STARRS'', ''II/349/ps1''), (''Gaia'', ''I/345/gaia2''), (''SDSS'', ''V/147/sdss12'')] s)"
    by (simp add: get_magnitudes_def)
qed

theorem twomass_galex_contribute_nothing_witness:
  "map_of (ids (sample_lib True)) ''GALEX'' = None \<and>
   get_magnitudes_body [(''II/246/out'', [twomass_row])] ''GALEX'' ''II/312/ais'' (sample_lib True) =
     Inr (warn ''GALEX'' 5 (sample_lib True)) \<and>
   new_librarian True ''42'' sample_res fresh_zips = Inr (sample_lib True) \<and>
   map_of (ids (sample_lib True)) ''2MASS'' = Some ''J1'' \<and>
   map_sum id measurement
     (get_magnitudes_body [(''II/246/out'', [twomass_row])] ''2MASS'' ''II/246/out'' (sample_lib True)) =
     Inr (measurement (sample_lib True)) \<and>
   map_sum id zips
     (get_magnitudes_body [(''II/246/out'', [twomass_row])] ''2MASS'' ''II/246/out'' (sample_lib True)) =
     Inr fresh_zips"
proof -
  let ?s0 = "\<lparr>verbose = True, g_id = ''42'', ids = [],
        used_filters = replicate (length filter_names) 0,
        mags = replicate (length filter_names) 0,
        mag_errs = replicate (length filter_names) 0,
        zips = fresh_zips, warnings = []\<rparr>"
  have n: "new_librarian True ''42'' sample_res fresh_zips = Inr (sample_lib True)"
    by (rule sample_lib_new)
  then have q: "gaia_query sample_res ?s0 = Inr (sample_lib True)"
    by (simp add: new_librarian_def)
  from twomass_galex_contribute_nothing[where res = sample_res and s = ?s0
      and s' = "sample_lib True"] q
  have g: "map_of (ids (sample_lib True)) ''GALEX'' = None"
    and t0: "map_of (ids (sample_lib True)) ''2MASS'' \<noteq> None" by blast+
  have t: "map_of (ids (sample_lib True)) ''2MASS'' = Some ''J1''" by (simp add: sample_lib_def)
  have v: "verbose (sample_lib True)" by (simp add: sample_lib_def)
  have z: "zips (sample_lib True) = fresh_zips" by (simp add: sample_lib_def)
  from twomass_galex_contribute_nothing[of "[(''II/246/out'', [twomass_row])]" "''II/246/out''"
      "sample_lib True"]
  have a: "map_sum id measurement
     (get_magnitudes_body [(''II/246/out'', [twomass_row])] ''2MASS'' ''II/246/out'' (sample_lib True)) =
     Inr (measurement (sample_lib True))"
    and a': "map_sum id zips
     (get_magnitudes_body [(''II/246/out'', [twomass_row])] ''2MASS'' ''II/246/out'' (sample_lib True)) =
     Inr (zips (sample_lib True))" by blast+
  from twomass_galex_contribute_nothing[of "[(''II/246/out'', [twomass_row])]" "''II/312/ais''"
      "sample_lib True"] g v
  have b: "get_magnitudes_body [(''II/246/out'', [twomass_row])] ''GALEX'' ''II/312/ais'' (sample_lib True) =
     Inr (warn ''GALEX'' 5 (sample_lib True))" by simp
  from g t a a' b n z show ?thesis by simp
qed

end
